theory Spec2Isabelle
  imports Main "HOL-Library.Sublist"
begin

section \<open>Python text primitives\<close>

text \<open>
  A Python \<open>str\<close> is a sequence of code points. The model keeps the code points below 256,
  one \<open>char\<close> each, so \<open>length\<close> is Python's \<open>len\<close>. The line feed is \<open>CHR 0x0A\<close>,
  written \<open>\<newline>\<close> inside literals.
\<close>

definition isspace :: "char \<Rightarrow> bool" where
  \<comment> \<open>The code points below 256 that \<open>str.isspace\<close> accepts; \<open>str.strip()\<close> removes exactly these.\<close>
  "isspace c = (c \<in> set [CHR 0x09, CHR 0x0A, CHR 0x0B, CHR 0x0C, CHR 0x0D,
                           CHR 0x1C, CHR 0x1D, CHR 0x1E, CHR 0x1F, CHR 0x20,
                           CHR 0x85, CHR 0xA0])"

definition strip :: "string \<Rightarrow> string" where
  \<comment> \<open>\<open>s.strip()\<close>: leading and trailing white space removed.\<close>
  "strip s = rev (dropWhile isspace (rev (dropWhile isspace s)))"

definition startswith :: "string \<Rightarrow> string \<Rightarrow> bool" where
  \<comment> \<open>\<open>s.startswith(p)\<close>\<close>
  "startswith s p = (take (length p) s = p)"

fun readlines :: "string \<Rightarrow> string list" where
  \<comment> \<open>\<open>f.readlines()\<close> on a text file whose decoded content is the argument: the content is cut
      after every line feed, and each line keeps its line feed; a last line without one is
      delivered as it is.\<close>
  "readlines [] = []"
| "readlines (c # cs) =
     (if c = CHR 0x0A then [c] # readlines cs
      else (case readlines cs of [] \<Rightarrow> [[c]] | l # ls \<Rightarrow> (c # l) # ls))"

definition writelines :: "string list \<Rightarrow> string" where
  \<comment> \<open>\<open>f.writelines(new_lines)\<close> on a file opened with mode \<open>'w'\<close>: the strings one after
      the other, nothing added between them.\<close>
  "writelines ls = concat ls"

section \<open>The credentials file: \<open>save_credentials_to_profile\<close>\<close>

record credentials =
  AccessKeyId :: string
  SecretAccessKey :: string
  SessionToken :: string
  Expiration :: string

definition profile_header :: "string \<Rightarrow> string" where
  \<comment> \<open>The f-string \<open>f"[{profile_name}]"\<close>.\<close>
  "profile_header profile_name = ''['' @ profile_name @ '']''"

text \<open>
  The \<open>while i < len(lines)\<close> loop of \<open>save_credentials_to_profile\<close> (source lines 187 to 208),
  with its four variables \<open>i\<close>, \<open>skip\<close>, \<open>profile_found\<close> and \<open>new_lines\<close> as arguments.
  Each branch that ends in \<open>continue\<close> or falls through to \<open>i += 1\<close> is a recursive call at
  \<open>i + 1\<close>. The look-ahead \<open>lines[i + 1]\<close> is read only behind the bound check, as Python's
  short-circuit \<open>and\<close> does.
\<close>

function scan_lines ::
  "string \<Rightarrow> string list \<Rightarrow> nat \<Rightarrow> bool \<Rightarrow> bool \<Rightarrow> string list \<Rightarrow> string list \<times> bool" where
  "scan_lines hdr lines i skip profile_found new_lines =
     (if i < length lines then
        let line = lines ! i in
        if strip line = hdr then scan_lines hdr lines (i + 1) True True new_lines
        else
          let skip' = (if skip \<and> startswith line ''['' then False else skip) in
          if \<not> skip' then
            if strip line = [] \<and> i + 1 < length lines \<and> strip (lines ! (i + 1)) = []
            then scan_lines hdr lines (i + 1) skip' profile_found new_lines
            else scan_lines hdr lines (i + 1) skip' profile_found (new_lines @ [line])
          else scan_lines hdr lines (i + 1) skip' profile_found new_lines
      else (new_lines, profile_found))"
  by pat_completeness auto
termination
  by (relation "measure (\<lambda>(hdr, lines, i, skip, profile_found, new_lines). length lines - i)") auto

definition credential_lines :: "string \<Rightarrow> credentials \<Rightarrow> string list" where
  \<comment> \<open>The four lines appended for the new profile (source lines 215 to 218).\<close>
  "credential_lines profile_name credentials =
     [profile_header profile_name @ ''\<newline>'',
      ''aws_access_key_id = '' @ AccessKeyId credentials @ ''\<newline>'',
      ''aws_secret_access_key = '' @ SecretAccessKey credentials @ ''\<newline>'',
      ''aws_session_token = '' @ SessionToken credentials @ ''\<newline>'']"

definition add_spacing :: "string list \<Rightarrow> string list" where
  \<comment> \<open>Source lines 210 to 212: \<open>if new_lines and new_lines[-1].strip() != ''\<close>.\<close>
  "add_spacing new_lines =
     (if new_lines \<noteq> [] \<and> strip (last new_lines) \<noteq> [] then new_lines @ [''\<newline>'']
      else new_lines)"

definition reconcile_lines :: "string \<Rightarrow> credentials \<Rightarrow> string list \<Rightarrow> string list \<times> bool" where
  \<comment> \<open>Source lines 182 to 218: from the lines read to the lines written, with \<open>profile_found\<close>.\<close>
  "reconcile_lines profile_name credentials lines =
     (case scan_lines (profile_header profile_name) lines 0 False False [] of
        (new_lines, profile_found) \<Rightarrow>
          (add_spacing new_lines @ credential_lines profile_name credentials, profile_found))"

definition default_profile :: "string \<Rightarrow> string option \<Rightarrow> string" where
  \<comment> \<open>Source lines 166 and 167: \<open>None\<close> and the empty string are both falsy.\<close>
  "default_profile account_name profile_name =
     (case profile_name of
        None \<Rightarrow> ''assumed-'' @ account_name
      | Some p \<Rightarrow> if p = [] then ''assumed-'' @ account_name else p)"

definition reconcile_text :: "string \<Rightarrow> credentials \<Rightarrow> string \<Rightarrow> string" where
  \<comment> \<open>What a read-reconcile-write cycle without I/O failure makes of the file's content.\<close>
  "reconcile_text profile_name credentials content =
     writelines (fst (reconcile_lines profile_name credentials (readlines content)))"

text \<open>
  The same loop as a function of the lines still to be read: \<open>scan hdr skip ls\<close> is what
  the loop appends to \<open>new_lines\<close> from the point where \<open>ls\<close> remains and the flag is
  \<open>skip\<close>. Lemma \<open>scan_lines_scan\<close> proves that the loop computes exactly this.
\<close>

fun scan :: "string \<Rightarrow> bool \<Rightarrow> string list \<Rightarrow> string list" where
  "scan hdr skip [] = []"
| "scan hdr skip (l # ls) =
     (if strip l = hdr then scan hdr True ls
      else if skip \<and> \<not> startswith l ''['' then scan hdr True ls
      else if strip l = [] \<and> (case ls of [] \<Rightarrow> False | n # _ \<Rightarrow> strip n = [])
        then scan hdr False ls
      else l # scan hdr False ls)"

text \<open>
  The specification's blank-line normalisation, in its own words: of every run of
  consecutive blank lines only one line stays (the last one of the run). A line is blank
  when \<open>strip\<close> leaves nothing of it.
\<close>

fun collapse_blank_runs :: "string list \<Rightarrow> string list" where
  "collapse_blank_runs [] = []"
| "collapse_blank_runs (l # ls) =
     (if strip l = [] \<and> (case ls of [] \<Rightarrow> False | n # _ \<Rightarrow> strip n = [])
      then collapse_blank_runs ls else l # collapse_blank_runs ls)"

fun no_double_blank :: "string list \<Rightarrow> bool" where
  "no_double_blank (a # b # r) = (\<not> (strip a = [] \<and> strip b = []) \<and> no_double_blank (b # r))"
| "no_double_blank _ = True"

definition has_target :: "string \<Rightarrow> string list \<Rightarrow> bool" where
  "has_target hdr ls = list_ex (\<lambda>l. strip l = hdr) ls"

text \<open>
  Reading a written file back. A line is \<open>terminated\<close> when it ends in a line feed and has
  no other; \<open>lines_ok\<close> is the shape of every result of \<open>readlines\<close>: all lines but the
  last are terminated, the last one may lack its line feed. \<open>join_lines K B\<close> is what
  \<open>readlines\<close> makes of \<open>K\<close> written in front of \<open>B\<close>: an unterminated last line of
  \<open>K\<close> runs into the first line of \<open>B\<close>. \<open>spacing\<close> is the separator that
  \<open>add_spacing\<close> appends, on its own; \<open>single_line\<close> says that a value has no line feed.
\<close>

definition terminated :: "string \<Rightarrow> bool" where
  "terminated l = (l \<noteq> [] \<and> last l = CHR 0x0A \<and> CHR 0x0A \<notin> set (butlast l))"



definition single_line :: "string \<Rightarrow> bool" where
  "single_line s = (CHR 0x0A \<notin> set s)"

definition spacing :: "string list \<Rightarrow> string list" where
  "spacing K = (if K \<noteq> [] \<and> strip (last K) \<noteq> [] then [''\<newline>''] else [])"

section \<open>Python values and exceptions\<close>

text \<open>
  What \<open>json.load\<close> returns: \<open>None\<close>, booleans, integers, floats (kept as mantissa and
  exponent, never computed with), strings, lists, and dictionaries with string keys.
\<close>

datatype pyval =
    PNone
  | PBool bool
  | PInt int
  | PFloat int int
  | PStr string
  | PList "pyval list"
  | PDict "(string \<times> pyval) list"

text \<open>
  Exceptions, and the text of messages and printed lines. An f-string is kept as its pieces:
  literal text \<open>S\<close>, a number, the \<open>str()\<close> of a value that is not a string (\<open>Val\<close>), the
  \<open>str(e)\<close> of an exception (\<open>StrOf\<close>), and the two marks the program prints that lie
  outside the character range of the model (\<open>Tick\<close>, \<open>Cross\<close>). The exceptions are those the
  modelled statements raise; all of them are subclasses of \<open>Exception\<close>, and \<open>IOError\<close> is
  \<open>OSError\<close>.
\<close>

datatype exn =
    ConfigError "piece list"
  | JSONDecodeError string
  | OSError string
  | FileNotFoundError
  | TypeError
  | AttributeError
  | KeyError string
  | NoCredentialsError
  | OtherException string
and piece =
    S string
  | Num nat
  | Val pyval
  | StrOf exn
  | Tick
  | Cross

definition quote :: string where
  "quote = [CHR 0x27]"

definition fmt :: "pyval \<Rightarrow> piece" where
  \<comment> \<open>A value inside an f-string: a string stands for itself.\<close>
  "fmt v = (case v of PStr s \<Rightarrow> S s | _ \<Rightarrow> Val v)"

definition and_then :: "exn + 'a \<Rightarrow> ('a \<Rightarrow> exn + 'b) \<Rightarrow> exn + 'b" where
  \<comment> \<open>Sequencing: an exception raised by the first step is the result.\<close>
  "and_then r f = (case r of Inl e \<Rightarrow> Inl e | Inr v \<Rightarrow> f v)"

definition py_in :: "string \<Rightarrow> pyval \<Rightarrow> exn + bool" where
  \<comment> \<open>\<open>key in container\<close> for a string \<open>key\<close>: key test on a dictionary, membership in a list,
      substring test on a string, \<open>TypeError\<close> on anything else.\<close>
  "py_in key container =
     (case container of
        PDict kvs \<Rightarrow> Inr (map_of kvs key \<noteq> None)
      | PList xs \<Rightarrow> Inr (PStr key \<in> set xs)
      | PStr s \<Rightarrow> Inr (sublist key s)
      | _ \<Rightarrow> Inl TypeError)"

definition py_getitem :: "pyval \<Rightarrow> string \<Rightarrow> exn + pyval" where
  \<comment> \<open>\<open>container[key]\<close> for a string \<open>key\<close>: \<open>KeyError\<close> on a dictionary without the key,
      \<open>TypeError\<close> on every other type (lists and strings take integer indices only).\<close>
  "py_getitem container key =
     (case container of
        PDict kvs \<Rightarrow> (case map_of kvs key of None \<Rightarrow> Inl (KeyError key) | Some v \<Rightarrow> Inr v)
      | _ \<Rightarrow> Inl TypeError)"

definition py_get :: "pyval \<Rightarrow> string \<Rightarrow> pyval \<Rightarrow> exn + pyval" where
  \<comment> \<open>\<open>container.get(key, default)\<close>: only dictionaries have the method.\<close>
  "py_get container key dflt =
     (case container of
        PDict kvs \<Rightarrow> (case map_of kvs key of None \<Rightarrow> Inr dflt | Some v \<Rightarrow> Inr v)
      | _ \<Rightarrow> Inl AttributeError)"

definition py_iter :: "pyval \<Rightarrow> exn + pyval list" where
  \<comment> \<open>The elements a \<open>for\<close> loop visits: a list's elements, a string's characters, a
      dictionary's keys; \<open>TypeError\<close> on anything else.\<close>
  "py_iter v =
     (case v of
        PList xs \<Rightarrow> Inr xs
      | PStr s \<Rightarrow> Inr (map (\<lambda>c. PStr [c]) s)
      | PDict kvs \<Rightarrow> Inr (map (\<lambda>kv. PStr (fst kv)) kvs)
      | _ \<Rightarrow> Inl TypeError)"

definition py_truthy :: "pyval \<Rightarrow> bool" where
  "py_truthy v =
     (case v of
        PNone \<Rightarrow> False
      | PBool b \<Rightarrow> b
      | PInt i \<Rightarrow> i \<noteq> 0
      | PFloat m e \<Rightarrow> m \<noteq> 0
      | PStr s \<Rightarrow> s \<noteq> []
      | PList xs \<Rightarrow> xs \<noteq> []
      | PDict kvs \<Rightarrow> kvs \<noteq> [])"

definition isdigit_char :: "char \<Rightarrow> bool" where
  \<comment> \<open>The code points below 256 that \<open>str.isdigit\<close> accepts: the ASCII digits and the
      superscript digits two, three and one.\<close>
  "isdigit_char c = (c \<in> set ''0123456789'' \<or> c \<in> set [CHR 0xB2, CHR 0xB3, CHR 0xB9])"



definition py_isdigit :: "pyval \<Rightarrow> exn + bool" where
  \<comment> \<open>\<open>v.isdigit()\<close>: only strings have the method; the empty string is not a digit string.\<close>
  "py_isdigit v =
     (case v of
        PStr s \<Rightarrow> Inr (s \<noteq> [] \<and> list_all isdigit_char s)
      | _ \<Rightarrow> Inl AttributeError)"

definition py_len :: "pyval \<Rightarrow> exn + nat" where
  "py_len v =
     (case v of
        PStr s \<Rightarrow> Inr (length s)
      | PList xs \<Rightarrow> Inr (length xs)
      | PDict kvs \<Rightarrow> Inr (length kvs)
      | _ \<Rightarrow> Inl TypeError)"

section \<open>The environment and the files\<close>

text \<open>
  The files the program touches and its console are the state \<open>world\<close>. What the program
  cannot decide is the environment \<open>env\<close>: the command line, the answers of the trust broker,
  the clock, and which file operations fail. A write that fails either fails on opening the
  file, which leaves it alone, or after the file was opened and some characters went out.
\<close>

datatype config_file_state =
    Missing
  | Raises exn
  | Holds pyval

datatype write_failure =
    OpenFails string
  | WriteFailsAfter nat string

datatype broker_outcome =
    Granted credentials
  | Refused string string
  | Failed string

datatype identity_outcome =
    Identity string string string
  | IdentityRefused string
  | IdentityNoCredentials
  | IdentityFails exn

record world =
  config_file :: config_file_state
  credentials_file :: "string option"
  access_log :: string
  console :: "piece list list"

record env =
  argv :: "string list"
  create_default_error :: "string option"
  sts_client_error :: "exn option"
  assume_role_result :: broker_outcome
  caller_identity :: identity_outcome
  now_session :: string
  now_log :: string
  log_error :: "write_failure option"
  mkdir_error :: "string option"
  read_error :: "string option"
  write_error :: "write_failure option"
  str_of_exn :: "exn \<Rightarrow> string"

text \<open>
  In \<open>config_file_state\<close>, \<open>Raises e\<close> is a file on which \<open>open\<close> or \<open>json.load\<close> raises
  \<open>e\<close>, and \<open>Holds v\<close> a file from which \<open>json.load\<close> returns \<open>v\<close>. In \<open>broker_outcome\<close>,
  \<open>Refused code message\<close> is a \<open>ClientError\<close> with these two fields in its response and
  \<open>Failed m\<close> any other exception, with \<open>str(e) = m\<close>. The field \<open>str_of_exn\<close> is the
  interpreter's \<open>str(e)\<close> for the exceptions of the model, used where that text goes into
  the audit log.
\<close>

definition print_line :: "piece list \<Rightarrow> world \<Rightarrow> world" where
  "print_line p w = w\<lparr>console := console w @ [p]\<rparr>"

definition print_lines :: "piece list list \<Rightarrow> world \<Rightarrow> world" where
  "print_lines ps w = w\<lparr>console := console w @ ps\<rparr>"

definition seq ::
  "(exn + 'a) \<times> world \<Rightarrow> ('a \<Rightarrow> world \<Rightarrow> (exn + 'b) \<times> world) \<Rightarrow> (exn + 'b) \<times> world" where
  \<comment> \<open>One statement after another on the state; an exception ends the sequence and keeps
      the state reached.\<close>
  "seq r f = (case r of (Inl e, w) \<Rightarrow> (Inl e, w) | (Inr v, w) \<Rightarrow> f v w)"

fun for_each ::
  "('a \<Rightarrow> world \<Rightarrow> (exn + unit) \<times> world) \<Rightarrow> 'a list \<Rightarrow> world \<Rightarrow> (exn + unit) \<times> world" where
  "for_each body [] w = (Inr (), w)"
| "for_each body (x # xs) w =
     (case body x w of (Inl e, w') \<Rightarrow> (Inl e, w') | (Inr u, w') \<Rightarrow> for_each body xs w')"

section \<open>\<open>save_credentials_to_profile\<close> with its file operations\<close>

definition write_file :: "write_failure option \<Rightarrow> string \<Rightarrow> string option \<Rightarrow> string option" where
  \<comment> \<open>\<open>with open(path, 'w') as f: f.writelines(...)\<close> on a file whose state is the last
      argument: mode \<open>'w'\<close> truncates on opening, so a failure after that leaves what went out.\<close>
  "write_file failure text old =
     (case failure of
        None \<Rightarrow> Some text
      | Some (OpenFails cause) \<Rightarrow> old
      | Some (WriteFailsAfter k cause) \<Rightarrow> Some (take k text))"

definition failure_cause :: "write_failure \<Rightarrow> string" where
  "failure_cause f = (case f of OpenFails cause \<Rightarrow> cause | WriteFailsAfter k cause \<Rightarrow> cause)"

definition save_credentials_to_profile ::
  "env \<Rightarrow> string \<Rightarrow> credentials \<Rightarrow> string option \<Rightarrow> world \<Rightarrow> (exn + unit) \<times> world" where
  "save_credentials_to_profile env account_name credentials profile_name0 w =
     (let profile_name = default_profile account_name profile_name0 in
      case mkdir_error env of
        Some cause \<Rightarrow> (Inl (OSError cause), w)
      | None \<Rightarrow>
          (case (case credentials_file w of
                   None \<Rightarrow> Inr []
                 | Some content \<Rightarrow>
                     (case read_error env of
                        Some cause \<Rightarrow> Inl (OSError cause)
                      | None \<Rightarrow> Inr (readlines content))) of
             Inl e \<Rightarrow> (Inl e, w)
           | Inr lines \<Rightarrow>
               (case reconcile_lines profile_name credentials lines of
                  (new_lines, profile_found) \<Rightarrow>
                    (let w1 = w\<lparr>credentials_file :=
                                  write_file (write_error env) (writelines new_lines) (credentials_file w)\<rparr>
                     in case write_error env of
                          None \<Rightarrow>
                            (Inr (),
                             print_lines
                               [[S ''\<newline>'', Tick, S '' '',
                                 S (if profile_found then ''Updated'' else ''Created''),
                                 S '' credentials profile: '', S profile_name],
                                [S ''\<newline>To use this profile, run:''],
                                [S ''  export AWS_PROFILE='', S profile_name],
                                [S ''Or add --profile '', S profile_name,
                                 S '' to your AWS CLI commands'']] w1)
                        | Some f \<Rightarrow>
                            (Inr (),
                             print_line [Cross, S '' Error writing credentials file: '',
                                         StrOf (OSError (failure_cause f))] w1)))))"

section \<open>The audit log: \<open>log_access\<close>\<close>

definition log_entry :: "string \<Rightarrow> string \<Rightarrow> string \<Rightarrow> bool \<Rightarrow> string option \<Rightarrow> string" where
  \<comment> \<open>Source lines 239 to 243; \<open>if error\<close> is false for \<open>None\<close> and for the empty string.\<close>
  "log_entry timestamp account_name session_name success error =
     (let status = (if success then ''SUCCESS'' else ''FAILED'');
          entry = timestamp @ '' - '' @ status @ '' - Account: '' @ quote @ account_name @ quote
                  @ '' - Session: '' @ session_name
      in case error of
           None \<Rightarrow> entry
         | Some m \<Rightarrow> if m \<noteq> [] then entry @ '' - Error: '' @ m else entry)"

definition append_file :: "write_failure option \<Rightarrow> string \<Rightarrow> string \<Rightarrow> string" where
  \<comment> \<open>\<open>with open(path, 'a') as f: f.write(text)\<close>; a missing file is an empty one.\<close>
  "append_file failure text old =
     (case failure of
        None \<Rightarrow> old @ text
      | Some (OpenFails cause) \<Rightarrow> old
      | Some (WriteFailsAfter k cause) \<Rightarrow> old @ take k text)"

definition log_access :: "env \<Rightarrow> string \<Rightarrow> string \<Rightarrow> bool \<Rightarrow> string option \<Rightarrow> world \<Rightarrow> world" where
  "log_access env account_name session_name success error w =
     (let entry = log_entry (now_log env) account_name session_name success error;
          w1 = w\<lparr>access_log := append_file (log_error env) (entry @ ''\<newline>'') (access_log w)\<rparr>
      in case log_error env of
           None \<Rightarrow> w1
         | Some f \<Rightarrow>
             print_line [S ''Warning: Could not write to log file: '',
                         StrOf (OSError (failure_cause f))] w1)"

section \<open>The account registry: \<open>validate_config\<close> and \<open>load_config\<close>\<close>

definition invalid_account_id :: "pyval \<Rightarrow> exn + unit" where
  \<comment> \<open>\<open>raise ConfigError(f"Account '{account['name']}' has invalid account_id format")\<close>:
      the subscript is evaluated first and may raise itself.\<close>
  "invalid_account_id account =
     and_then (py_getitem account ''name'')
       (\<lambda>name. Inl (ConfigError [S ''Account '', S quote, fmt name, S quote,
                                    S '' has invalid account_id format'']))"

definition check_account :: "nat \<Rightarrow> pyval \<Rightarrow> exn + unit" where
  \<comment> \<open>The body of the loop at source lines 55 to 63, for the entry \<open>account\<close> at index \<open>i\<close>.\<close>
  "check_account i account =
     and_then (py_in ''name'' account) (\<lambda>has_name.
       if \<not> has_name
       then Inl (ConfigError [S ''Account at index '', Num i, S '' missing '', S quote, S ''name'',
                               S quote, S '' field''])
       else and_then (py_in ''account_id'' account) (\<lambda>has_id.
         if \<not> has_id
         then and_then (py_getitem account ''name'')
                (\<lambda>name. Inl (ConfigError [S ''Account '', S quote, fmt name, S quote,
                                             S '' missing '', S quote, S ''account_id'', S quote,
                                             S '' field'']))
         else and_then (py_getitem account ''account_id'') (\<lambda>account_id.
                and_then (py_isdigit account_id) (\<lambda>digits.
                  if \<not> digits then invalid_account_id account
                  else and_then (py_getitem account ''account_id'') (\<lambda>account_id2.
                         and_then (py_len account_id2) (\<lambda>n.
                           if n \<noteq> 12 then invalid_account_id account else Inr ()))))))"

fun check_accounts :: "nat \<Rightarrow> pyval list \<Rightarrow> exn + unit" where
  \<comment> \<open>\<open>for i, account in enumerate(config['accounts'])\<close>, from index \<open>i\<close> on.\<close>
  "check_accounts i [] = Inr ()"
| "check_accounts i (account # rest) =
     (case check_account i account of Inl e \<Rightarrow> Inl e | Inr u \<Rightarrow> check_accounts (i + 1) rest)"

definition validate_config :: "pyval \<Rightarrow> exn + unit" where
  "validate_config config =
     and_then (py_in ''accounts'' config) (\<lambda>has_accounts.
       if \<not> has_accounts
       then Inl (ConfigError [S ''Config must contain '', S quote, S ''accounts'', S quote, S '' key''])
       else and_then (py_getitem config ''accounts'') (\<lambda>accounts.
         case accounts of
           PList entries \<Rightarrow> check_accounts 0 entries
         | _ \<Rightarrow> Inl (ConfigError [S quote, S ''accounts'', S quote, S '' must be a list''])))"

definition default_config :: pyval where
  "default_config =
     PDict [(''accounts'', PList
       [PDict [(''name'', PStr ''main''), (''account_id'', PStr ''949396396071''),
               (''description'', PStr ''Main AWS Account'')],
        PDict [(''name'', PStr ''dev''), (''account_id'', PStr ''093218045525''),
               (''role_arn'', PStr ''arn:aws:iam::093218045525:role/CrossAccountAdminRole''),
               (''description'', PStr ''Development Account'')]])]"

definition create_default_config :: "env \<Rightarrow> string \<Rightarrow> world \<Rightarrow> (exn + unit) \<times> world" where
  \<comment> \<open>The write is outside every \<open>try\<close>: its failure leaves \<open>load_config\<close> as it is raised.\<close>
  "create_default_config env path w =
     (case create_default_error env of
        Some cause \<Rightarrow> (Inl (OSError cause), w)
      | None \<Rightarrow>
          (Inr (),
           print_lines [[S ''Created default config at '', S path],
                        [S ''Edit this file to add more accounts and roles'']]
             (w\<lparr>config_file := Holds default_config\<rparr>)))"

definition handle_load_error :: "exn \<Rightarrow> exn" where
  \<comment> \<open>The two \<open>except\<close> clauses of \<open>load_config\<close>, source lines 42 to 45, applied to an
      exception raised inside the \<open>try\<close>.\<close>
  "handle_load_error e =
     (case e of
        JSONDecodeError m \<Rightarrow> ConfigError [S ''Invalid JSON in config file: '', StrOf e]
      | _ \<Rightarrow> ConfigError [S ''Error loading config: '', StrOf e])"

definition read_config :: "world \<Rightarrow> exn + pyval" where
  \<comment> \<open>The \<open>try\<close> block of \<open>load_config\<close>, source lines 35 to 45.\<close>
  "read_config w =
     (case (case config_file w of
              Missing \<Rightarrow> Inl FileNotFoundError
            | Raises e \<Rightarrow> Inl e
            | Holds config \<Rightarrow> and_then (validate_config config) (\<lambda>u. Inr config)) of
        Inl e \<Rightarrow> Inl (handle_load_error e)
      | Inr config \<Rightarrow> Inr config)"

definition load_config :: "env \<Rightarrow> string \<Rightarrow> world \<Rightarrow> (exn + pyval) \<times> world" where
  "load_config env path w =
     seq (if config_file w = Missing
          then create_default_config env path
                 (print_line [S ''Config file '', S path, S '' not found. Creating default...''] w)
          else (Inr (), w))
       (\<lambda>u w1. (read_config w1, w1))"

section \<open>Commands: \<open>list_accounts\<close>, \<open>assume_role\<close>, \<open>get_current_identity\<close>, \<open>main\<close>\<close>

definition dashes :: string where
  "dashes = replicate 60 (CHR ''-'')"

definition list_account :: "pyval \<Rightarrow> world \<Rightarrow> (exn + unit) \<times> world" where
  \<comment> \<open>The body of the loop of \<open>list_accounts\<close>, source lines 94 to 99.\<close>
  "list_account account w =
     seq (py_getitem account ''name'', w) (\<lambda>name w.
     seq (py_getitem account ''account_id'', print_line [S ''Name: '', fmt name] w) (\<lambda>account_id w.
     seq (py_get account ''description'' (PStr ''N/A''),
          print_line [S ''Account ID: '', fmt account_id] w) (\<lambda>description w.
     seq (py_in ''role_arn'' account, print_line [S ''Description: '', fmt description] w) (\<lambda>has_role w.
     seq (if has_role
          then seq (py_getitem account ''role_arn'', w)
                 (\<lambda>role_arn w. (Inr (), print_line [S ''Role ARN: '', fmt role_arn] w))
          else (Inr (), w))
       (\<lambda>u w. (Inr (), print_line [S dashes] w))))))"

definition list_accounts :: "pyval \<Rightarrow> world \<Rightarrow> (exn + unit) \<times> world" where
  "list_accounts config w =
     seq (and_then (py_getitem config ''accounts'') py_iter,
          print_lines [[S ''\<newline>Configured Accounts:''], [S dashes]] w)
       (\<lambda>accounts w. for_each list_account accounts w)"

fun find_account :: "string \<Rightarrow> pyval list \<Rightarrow> exn + pyval option" where
  \<comment> \<open>The search loop of \<open>assume_role\<close>, source lines 104 to 108: the first entry whose
      \<open>name\<close> equals \<open>account_name\<close>.\<close>
  "find_account account_name [] = Inr None"
| "find_account account_name (acc # rest) =
     (case py_getitem acc ''name'' of
        Inl e \<Rightarrow> Inl e
      | Inr name \<Rightarrow>
          if name = PStr account_name then Inr (Some acc) else find_account account_name rest)"

definition print_account_name :: "pyval \<Rightarrow> world \<Rightarrow> (exn + unit) \<times> world" where
  "print_account_name acc w =
     seq (py_getitem acc ''name'', w) (\<lambda>name w. (Inr (), print_line [S ''  - '', fmt name] w))"

definition session_name_or_default :: "env \<Rightarrow> string option \<Rightarrow> string" where
  \<comment> \<open>Source lines 123 and 124.\<close>
  "session_name_or_default env session_name =
     (case session_name of
        None \<Rightarrow> ''session-'' @ now_session env
      | Some s \<Rightarrow> if s = [] then ''session-'' @ now_session env else s)"

definition call_broker ::
  "env \<Rightarrow> pyval \<Rightarrow> string \<Rightarrow> string \<Rightarrow> world \<Rightarrow> (exn + credentials option) \<times> world" where
  \<comment> \<open>The \<open>try\<close> statement of \<open>assume_role\<close>, source lines 126 to 162, for the entry
      \<open>account\<close>. Evaluating \<open>account['role_arn']\<close> is inside the \<open>try\<close>, so an exception
      of it ends in the last \<open>except\<close> clause like any other.\<close>
  "call_broker env account account_name session_name w =
     (let w1 = print_line [S ''\<newline>Assuming role in '', S account_name, S '' account...''] w in
      case py_getitem account ''role_arn'' of
        Inl e \<Rightarrow>
          (Inr None,
           log_access env account_name session_name False (Some (str_of_exn env e))
             (print_line [Cross, S '' Unexpected error: '', StrOf e] w1))
      | Inr role_arn \<Rightarrow>
          (case assume_role_result env of
             Granted credentials \<Rightarrow>
               (Inr (Some credentials),
                log_access env account_name session_name True None
                  (print_lines [[Tick, S '' Successfully assumed role!''],
                                [S ''Session expires at: '', S (Expiration credentials)]] w1))
           | Refused error_code error_msg \<Rightarrow>
               (Inr None,
                log_access env account_name session_name False (Some error_msg)
                  (print_lines
                     ([[Cross, S '' Error assuming role: '', S error_code],
                       [S ''Details: '', S error_msg]]
                      @ (if error_code = ''AccessDenied''
                         then [[S ''\<newline>Possible causes:''],
                               [S ''  - Trust relationship not configured correctly''],
                               [S (''  - Role doesn'' @ quote @ ''t exist in target account'')],
                               [S ''  - Your user lacks sts:AssumeRole permission'']]
                         else [])) w1))
           | Failed m \<Rightarrow>
               (Inr None,
                log_access env account_name session_name False (Some m)
                  (print_line [Cross, S '' Unexpected error: '', S m] w1))))"

definition assume_role ::
  "env \<Rightarrow> pyval \<Rightarrow> string \<Rightarrow> string option \<Rightarrow> world \<Rightarrow> (exn + credentials option) \<times> world" where
  "assume_role env config account_name session_name w =
     seq (and_then (and_then (py_getitem config ''accounts'') py_iter)
            (find_account account_name), w) (\<lambda>found w.
       case (case found of None \<Rightarrow> None | Some acc \<Rightarrow> if py_truthy acc then Some acc else None) of
         None \<Rightarrow>
           seq (and_then (py_getitem config ''accounts'') py_iter,
                print_lines [[S ''Error: Account '', S quote, S account_name, S quote,
                              S '' not found in config''],
                             [S ''\<newline>Available accounts:'']] w)
             (\<lambda>accounts w. seq (for_each print_account_name accounts w) (\<lambda>u w. (Inr None, w)))
       | Some account \<Rightarrow>
           seq (py_in ''role_arn'' account, w) (\<lambda>has_role w.
             if \<not> has_role
             then (Inr None,
                   print_lines [[S ''Error: No role ARN configured for account '', S quote,
                                 S account_name, S quote],
                                [S ''Add a '', S quote, S ''role_arn'', S quote,
                                 S '' field to this account in accounts.json'']] w)
             else call_broker env account account_name
                    (session_name_or_default env session_name) w))"

definition get_current_identity :: "env \<Rightarrow> world \<Rightarrow> (exn + unit) \<times> world" where
  "get_current_identity env w =
     (case caller_identity env of
        Identity account arn user_id \<Rightarrow>
          (Inr (),
           print_lines [[S ''\<newline>Current AWS Identity:''],
                        [S ''Account: '', S account],
                        [S ''User/Role ARN: '', S arn],
                        [S ''User ID: '', S user_id]] w)
      | IdentityRefused message \<Rightarrow>
          (Inr (), print_line [Cross, S '' Error getting identity: '', S message] w)
      | IdentityNoCredentials \<Rightarrow>
          (Inr (),
           print_lines [[Cross, S '' No AWS credentials configured''],
                        [S ''Run '', S quote, S ''aws configure'', S quote,
                         S '' to set up your credentials'']] w)
      | IdentityFails e \<Rightarrow> (Inl e, w))"

definition init :: "env \<Rightarrow> world \<Rightarrow> (exn + pyval) \<times> world" where
  \<comment> \<open>\<open>AccountManager.__init__\<close> with the default \<open>config_file='accounts.json'\<close>; the
      result is \<open>self.config\<close>.\<close>
  "init env w =
     seq (load_config env ''accounts.json'' w) (\<lambda>config w.
       case sts_client_error env of
         None \<Rightarrow> (Inr config, w)
       | Some e \<Rightarrow>
           if e = NoCredentialsError
           then (Inl e,
                 print_lines [[S ''Error: AWS credentials not configured.''],
                              [S ''Run '', S quote, S ''aws configure'', S quote,
                               S '' to set up your credentials.'']] w)
           else (Inl e, w))"

definition usage :: "piece list list" where
  "usage =
     [[S ''AWS Multi-Account Access Manager''],
      [S ''\<newline>Usage:''],
      [S ''  python3 account_manager.py list              - List all accounts''],
      [S ''  python3 account_manager.py assume <account>  - Assume role in account''],
      [S ''  python3 account_manager.py whoami            - Show current identity''],
      [S ''\<newline>Example:''],
      [S ''  python3 account_manager.py assume dev'']]"

definition run_command :: "env \<Rightarrow> pyval \<Rightarrow> world \<Rightarrow> (exn + unit) \<times> world" where
  \<comment> \<open>\<open>main\<close> from source line 277 on, with \<open>manager.config = config\<close>.\<close>
  "run_command env config w =
     (if length (argv env) < 2 then (Inr (), print_lines usage w)
      else
        let command = argv env ! 1 in
        if command = ''list'' then list_accounts config w
        else if command = ''assume'' then
          (if length (argv env) < 3
           then (Inr (),
                 print_lines [[S ''Error: Please specify an account name''],
                              [S ''Usage: python3 account_manager.py assume <account>'']] w)
           else
             let account_name = argv env ! 2 in
             seq (assume_role env config account_name None w) (\<lambda>credentials w.
               case credentials of
                 None \<Rightarrow> (Inr (), w)
               | Some c \<Rightarrow> save_credentials_to_profile env account_name c None w))
        else if command = ''whoami'' then get_current_identity env w
        else (Inr (),
              print_lines [[S ''Unknown command: '', S command],
                           [S ''Valid commands: list, assume, whoami'']] w))"

definition is_init_failure :: "exn \<Rightarrow> bool" where
  \<comment> \<open>\<open>except (ConfigError, NoCredentialsError)\<close>\<close>
  "is_init_failure e = (case e of ConfigError m \<Rightarrow> True | NoCredentialsError \<Rightarrow> True | _ \<Rightarrow> False)"

definition main :: "env \<Rightarrow> world \<Rightarrow> (exn + unit) \<times> world" where
  "main env w =
     (case init env w of
        (Inl e, w1) \<Rightarrow>
          if is_init_failure e
          then (Inr (), print_line [S ''\<newline>'', Cross, S '' Initialization failed: '', StrOf e] w1)
          else (Inl e, w1)
      | (Inr config, w1) \<Rightarrow> run_command env config w1)"

section \<open>Auxiliary notions and sample data\<close>

text \<open>
  \<open>old_lines\<close> is what \<open>save_credentials_to_profile\<close> reads when the read succeeds (no
  lines for a missing file); \<open>is_config_error\<close> recognises the class \<open>ConfigError\<close>. The
  constants \<open>example_\<dots>\<close> and \<open>registry\<close> are sample data on which the theorems are
  instantiated.
\<close>

definition old_lines :: "world \<Rightarrow> string list" where
  "old_lines w = (case credentials_file w of None \<Rightarrow> [] | Some content \<Rightarrow> readlines content)"

definition is_config_error :: "exn \<Rightarrow> bool" where
  "is_config_error e = (case e of ConfigError m \<Rightarrow> True | _ \<Rightarrow> False)"

definition example_credentials :: credentials where
  "example_credentials =
     \<lparr>AccessKeyId = ''AK'', SecretAccessKey = ''SK'', SessionToken = ''TK'', Expiration = ''E''\<rparr>"

definition example_env :: env where
  "example_env =
     \<lparr>argv = [''account_manager.py'', ''assume'', ''dev''], create_default_error = None,
      sts_client_error = None, assume_role_result = Granted example_credentials,
      caller_identity = IdentityNoCredentials, now_session = ''20240101-000000'',
      now_log = ''2024-01-01 00:00:00'', log_error = None, mkdir_error = None,
      read_error = None, write_error = None, str_of_exn = (\<lambda>e. ''error'')\<rparr>"

definition example_world :: world where
  "example_world =
     \<lparr>config_file = Holds default_config, credentials_file = Some ''[a]\<newline>k=1\<newline>'',
      access_log = [], console = []\<rparr>"

definition registry :: "pyval \<Rightarrow> pyval" where
  "registry account_id = PDict [(''accounts'', PList [PDict [(''name'', PStr ''dev''), (''account_id'', account_id)]])]"

declare scan_lines.simps [simp del]

section \<open>The loop and its structural form\<close>

lemma drop_Cons_nth: "i < length xs \<Longrightarrow> drop i xs = xs ! i # drop (Suc i) xs"
  by (simp add: Cons_nth_drop_Suc)

lemma scan_lines_scan:
  "scan_lines hdr lines i skip pf acc =
     (acc @ scan hdr skip (drop i lines), pf \<or> has_target hdr (drop i lines))"
proof (induction hdr lines i skip pf acc rule: scan_lines.induct)
  case (1 hdr lines i skip pf acc)
  show ?case
  proof (cases "i < length lines")
    case False
    then show ?thesis by (subst scan_lines.simps) (simp add: has_target_def)
  next
    case True
    then have d: "drop i lines = lines ! i # drop (Suc i) lines" by (rule drop_Cons_nth)
    have n: "(case drop (Suc i) lines of [] \<Rightarrow> False | n # _ \<Rightarrow> strip n = []) =
             (i + 1 < length lines \<and> strip (lines ! (i + 1)) = [])"
      by (cases "Suc i < length lines") (simp_all add: drop_Cons_nth)
    show ?thesis
      apply (subst scan_lines.simps)
      using True "1.IH" 
      apply (simp only: d )
      apply (simp add: Let_def has_target_def n)
      done
  qed
qed



lemma all_dropWhile: "(\<forall>x\<in>set (dropWhile P l). P x) = (\<forall>c\<in>set l. P c)"
  by (induction l) auto

lemma strip_empty_iff: "strip l = [] \<longleftrightarrow> (\<forall>c\<in>set l. isspace c)"
  unfolding strip_def by (simp add: dropWhile_eq_Nil_conv all_dropWhile)

lemma startswith_bracket: "startswith l ''['' \<longleftrightarrow> (\<exists>r. l = CHR ''['' # r)"
  by (cases l) (simp_all add: startswith_def)

lemma bracket_not_space: "\<not> isspace (CHR ''['')"
  by (simp add: isspace_def)

lemma startswith_not_blank: "startswith l ''['' \<Longrightarrow> strip l \<noteq> []"
proof -
  assume "startswith l ''[''"
  then obtain r where "l = CHR ''['' # r" unfolding startswith_bracket by blast
  then have "CHR ''['' \<in> set l" by simp
  then show ?thesis unfolding strip_empty_iff using bracket_not_space by blast
qed

lemma scan_target: "strip h = hdr \<Longrightarrow> scan hdr sk (h # ls) = scan hdr True ls"
  by simp

lemma scan_skip_drop:
  "\<forall>l\<in>set xs. \<not> startswith l ''['' \<Longrightarrow> scan hdr True (xs @ ys) = scan hdr True ys"
  by (induction xs) auto


lemma scan_noskip_collapse:
  "\<forall>l\<in>set xs. strip l \<noteq> hdr \<Longrightarrow> ys = [] \<or> strip (hd ys) \<noteq> [] \<Longrightarrow>
   scan hdr False (xs @ ys) = collapse_blank_runs xs @ scan hdr False ys"
proof (induction xs)
  case Nil
  then show ?case by simp
next
  case (Cons x xs)
  have la: "(case xs @ ys of [] \<Rightarrow> False | n # _ \<Rightarrow> strip n = []) =
            (case xs of [] \<Rightarrow> False | n # _ \<Rightarrow> strip n = [])"
    using Cons.prems(2) by (cases xs; cases ys) simp_all
  have ih: "scan hdr False (xs @ ys) = collapse_blank_runs xs @ scan hdr False ys"
    using Cons by simp
  have nx: "strip x \<noteq> hdr" using Cons.prems(1) by simp
  show ?case using nx by (simp add: la ih)
qed


lemma collapse_id: "no_double_blank xs \<Longrightarrow> collapse_blank_runs xs = xs"
  by (induction xs rule: no_double_blank.induct) auto


lemma profile_header_not_Nil: "profile_header n \<noteq> []"
  by (simp add: profile_header_def)

lemma scan_upto_target:
  "strip h = hdr \<Longrightarrow> scan hdr sk (xs @ h # ys) = scan hdr sk (xs @ [h]) @ scan hdr True ys"
proof (induction xs arbitrary: sk)
  case Nil
  then show ?case by simp
next
  case (Cons x xs)
  have la: "(case xs @ h # ys of [] \<Rightarrow> False | n # _ \<Rightarrow> strip n = []) =
            (case xs @ [h] of [] \<Rightarrow> False | n # _ \<Rightarrow> strip n = [])"
    by (cases xs) simp_all
  show ?case using Cons by (simp add: la)
qed

lemma has_target_append: "has_target hdr (xs @ ys) = (has_target hdr xs \<or> has_target hdr ys)"
  by (simp add: has_target_def)

lemma has_target_Cons: "has_target hdr (x # xs) = (strip x = hdr \<or> has_target hdr xs)"
  by (simp add: has_target_def)

lemma reconcile_lines_scan:
  "reconcile_lines n c ls =
     (add_spacing (scan (profile_header n) False ls) @ credential_lines n c,
      has_target (profile_header n) ls)"
  by (simp add: reconcile_lines_def scan_lines_scan)


lemma nonblank_collapse:
  "filter (\<lambda>l. strip l \<noteq> []) (collapse_blank_runs ls) = filter (\<lambda>l. strip l \<noteq> []) ls"
  by (induction ls) auto

lemma scan_True_first: "scan hdr True ls = x # xs \<Longrightarrow> strip x \<noteq> []"
proof (induction ls)
  case Nil
  then show ?case by simp
next
  case (Cons l ls)
  then show ?case
    by (auto split: if_splits simp: startswith_not_blank)
qed

lemma scan_first_nonblank:
  "scan hdr sk (l # ls) = x # xs \<Longrightarrow> strip l \<noteq> [] \<Longrightarrow> strip x \<noteq> []"
  by (auto split: if_splits dest: scan_True_first)

lemma no_double_blank_Cons:
  "no_double_blank (a # xs) = ((xs = [] \<or> \<not> (strip a = [] \<and> strip (hd xs) = [])) \<and> no_double_blank xs)"
  by (cases xs) auto

lemma scan_no_double_blank: "no_double_blank (scan hdr sk ls)"
proof (induction ls arbitrary: sk)
  case Nil
  then show ?case by simp
next
  case (Cons l ls)
  have emit: "no_double_blank (l # scan hdr False ls)"
    if nb: "\<not> (strip l = [] \<and> (case ls of [] \<Rightarrow> False | n # _ \<Rightarrow> strip n = []))"
  proof (cases "scan hdr False ls")
    case Nil
    then show ?thesis by simp
  next
    case (Cons x xs)
    then obtain n ls' where ls: "ls = n # ls'" by (cases ls) auto
    have "\<not> (strip l = [] \<and> strip x = [])"
    proof
      assume b: "strip l = [] \<and> strip x = []"
      then have "strip n \<noteq> []" using nb ls by simp
      then have "strip x \<noteq> []" using Cons ls scan_first_nonblank by blast
      then show False using b by simp
    qed
    then show ?thesis using Cons Cons.IH [of False] by (simp add: no_double_blank_Cons)
  qed
  show ?case using Cons.IH emit by simp
qed

lemma readlines_line:
  "CHR 0x0A \<notin> set b \<Longrightarrow> readlines (b @ CHR 0x0A # s) = (b @ [CHR 0x0A]) # readlines s"
  by (induction b) auto

lemma readlines_terminated: "terminated l \<Longrightarrow> readlines (l @ s) = l # readlines s"
proof -
  assume t: "terminated l"
  then have l: "l = butlast l @ [CHR 0x0A]" unfolding terminated_def
    by (metis append_butlast_last_id)
  have "readlines (butlast l @ CHR 0x0A # s) = (butlast l @ [CHR 0x0A]) # readlines s"
    using t unfolding terminated_def by (intro readlines_line) simp
  then show ?thesis using l by (metis append.assoc append_Cons append_Nil)
qed

lemma readlines_concat_terminated:
  "list_all terminated B \<Longrightarrow> readlines (concat B @ s) = B @ readlines s"
  by (induction B) (simp_all add: readlines_terminated)


lemma terminated_Cons: "c \<noteq> CHR 0x0A \<Longrightarrow> terminated l \<Longrightarrow> terminated (c # l)"
  by (auto simp: terminated_def)





lemma add_spacing_spacing: "add_spacing K = K @ spacing K"
  by (simp add: add_spacing_def spacing_def)

lemma isspace_LF: "isspace (CHR 0x0A)"
  by (simp add: isspace_def)

lemma close_bracket_not_space: "\<not> isspace (CHR '']'')"
  by (simp add: isspace_def)



lemma strip_blank_LF: "strip [CHR 0x0A] = []"
  unfolding strip_empty_iff using isspace_LF by simp




lemma strip_header_line: "strip (profile_header n @ ''\<newline>'') = profile_header n"
  by (simp add: strip_def profile_header_def bracket_not_space close_bracket_not_space isspace_LF)


lemma credential_lines_terminated:
  assumes "single_line n" "single_line (AccessKeyId c)" "single_line (SecretAccessKey c)"
    "single_line (SessionToken c)"
  shows "list_all terminated (credential_lines n c)"
  using assms by (simp add: credential_lines_def terminated_def single_line_def profile_header_def butlast_append)



lemma no_double_blank_append:
  "no_double_blank (xs @ ys) =
     (no_double_blank xs \<and> no_double_blank ys \<and>
      (xs = [] \<or> ys = [] \<or> \<not> (strip (last xs) = [] \<and> strip (hd ys) = [])))"
proof (induction xs)
  case Nil
  show ?case by simp
next
  case (Cons x xs)
  show ?case
  proof (cases xs)
    case Nil
    then show ?thesis by (cases ys) auto
  next
    case (Cons b r)
    then show ?thesis using Cons.IH by auto
  qed
qed







lemma credential_lines_Cons:
  "credential_lines n c = (profile_header n @ ''\<newline>'') # tl (credential_lines n c)"
  by (simp add: credential_lines_def)


lemma scan_subset: "set (scan hdr sk ls) \<subseteq> set ls"
  by (induction ls arbitrary: sk) auto

lemma scan_no_target: "\<forall>l\<in>set (scan hdr sk ls). strip l \<noteq> hdr"
  by (induction ls arbitrary: sk) auto

lemma readlines_all_terminated:
  "s = [] \<or> last s = CHR 0x0A \<Longrightarrow> list_all terminated (readlines s)"
proof (induction s)
  case Nil
  then show ?case by simp
next
  case (Cons c cs)
  show ?case
  proof (cases "cs = []")
    case True
    then show ?thesis using Cons.prems by (simp add: terminated_def)
  next
    case False
    then have ih: "list_all terminated (readlines cs)" using Cons by simp
    have ne: "readlines cs \<noteq> []" using False by (cases cs) (auto split: list.splits)
    show ?thesis
    proof (cases "c = CHR 0x0A")
      case True
      have "terminated [CHR 0x0A]" by (simp add: terminated_def)
      then show ?thesis using True ih by simp
    next
      case False
      then show ?thesis using ih ne by (cases "readlines cs") (simp_all add: terminated_Cons)
    qed
  qed
qed

lemma tl_credential_lines_no_bracket:
  "\<forall>l\<in>set (tl (credential_lines n c)). \<not> startswith l ''[''"
  by (simp add: credential_lines_def startswith_def)

lemma spacing_add_spacing: "spacing (K @ spacing K) = []"
  by (auto simp: spacing_def strip_blank_LF)

lemma resave_same_when_newline_terminated:
  assumes sl: "single_line n" "single_line (AccessKeyId c)" "single_line (SecretAccessKey c)"
    "single_line (SessionToken c)"
    and nl: "content = [] \<or> last content = CHR 0x0A"
  shows "reconcile_text n c (reconcile_text n c content) = reconcile_text n c content"
proof -
  let ?hdr = "profile_header n"
  let ?K = "scan ?hdr False (readlines content)"
  let ?B = "credential_lines n c"
  have Kt: "list_all terminated ?K"
    using readlines_all_terminated [OF nl] scan_subset [of ?hdr False "readlines content"]
    by (auto simp: list_all_iff)
  have "terminated ''\<newline>''" by (simp add: terminated_def)
  then have St: "list_all terminated (spacing ?K)" by (simp add: spacing_def)
  have all: "list_all terminated ((?K @ spacing ?K) @ ?B)"
    using Kt St credential_lines_terminated [OF sl] by simp
  have out: "reconcile_text n c content = concat ((?K @ spacing ?K) @ ?B)"
    by (simp add: reconcile_text_def reconcile_lines_scan writelines_def add_spacing_spacing)
  have rd: "readlines (reconcile_text n c content) = (?K @ spacing ?K) @ ?B"
    unfolding out using readlines_concat_terminated [OF all, of "[]"] by simp
  have nt: "\<forall>l\<in>set (?K @ spacing ?K). strip l \<noteq> ?hdr"
    using scan_no_target [of ?hdr False "readlines content"] profile_header_not_Nil [of n]
    by (auto simp: spacing_def strip_blank_LF)
  have ndb: "no_double_blank (?K @ spacing ?K)"
    using scan_no_double_blank [of ?hdr False "readlines content"]
    by (simp add: spacing_def no_double_blank_append)
  have hb: "strip (?hdr @ ''\<newline>'') \<noteq> []"
    by (simp add: strip_header_line profile_header_not_Nil)
  have "scan ?hdr False ((?K @ spacing ?K) @ (?hdr @ ''\<newline>'') # tl ?B) =
        collapse_blank_runs (?K @ spacing ?K) @ scan ?hdr False ((?hdr @ ''\<newline>'') # tl ?B)"
    using nt hb by (intro scan_noskip_collapse) simp_all
  also have "scan ?hdr False ((?hdr @ ''\<newline>'') # tl ?B) = scan ?hdr True (tl ?B @ [])"
    by (simp add: strip_header_line)
  also have "\<dots> = []"
    using scan_skip_drop [OF tl_credential_lines_no_bracket, of ?hdr n c "[]"] by simp
  finally have sc: "scan ?hdr False ((?K @ spacing ?K) @ ?B) = ?K @ spacing ?K"
    using collapse_id [OF ndb] credential_lines_Cons [of n c] by simp
  show ?thesis
    apply (subst (1) reconcile_text_def)
    apply (simp only: rd reconcile_lines_scan sc fst_conv add_spacing_spacing spacing_add_spacing)
    apply (simp add: out writelines_def)
    done
qed



lemmas eval_defs = reconcile_text_def reconcile_lines_def scan_lines_scan strip_def isspace_def
      startswith_def profile_header_def add_spacing_def credential_lines_def writelines_def has_target_def

section \<open>Lemmas about the program with its files\<close>

lemma save_read_failure:
  assumes "mkdir_error env = None" "credentials_file w = Some content" "read_error env = Some cause"
  shows "save_credentials_to_profile env account_name credentials profile_name w = (Inl (OSError cause), w)"
  using assms by (simp add: save_credentials_to_profile_def)

lemma save_after_read:
  assumes "mkdir_error env = None" "credentials_file w = None \<or> read_error env = None"
  shows "fst (save_credentials_to_profile env account_name credentials profile_name w) = Inr ()
       \<and> credentials_file (snd (save_credentials_to_profile env account_name credentials profile_name w)) =
           write_file (write_error env)
             (writelines (fst (reconcile_lines (default_profile account_name profile_name) credentials (old_lines w))))
             (credentials_file w)
       \<and> access_log (snd (save_credentials_to_profile env account_name credentials profile_name w)) = access_log w"
  using assms
  by (auto simp: save_credentials_to_profile_def old_lines_def Let_def print_line_def print_lines_def
           split: option.splits prod.splits)

lemma save_write_failure_console:
  assumes "mkdir_error env = None" "credentials_file w = None \<or> read_error env = None"
    "write_error env = Some f"
  shows "console (snd (save_credentials_to_profile env account_name credentials profile_name w)) =
           console w @ [[Cross, S '' Error writing credentials file: '', StrOf (OSError (failure_cause f))]]"
  using assms
  by (auto simp: save_credentials_to_profile_def Let_def print_line_def print_lines_def
           split: option.splits prod.splits)

lemma handle_load_error_config: "is_config_error (handle_load_error e)"
  by (cases e) (simp_all add: handle_load_error_def is_config_error_def)

lemma load_config_existing:
  assumes "config_file w \<noteq> Missing"
  shows "load_config env path w = (read_config w, w)"
  using assms by (simp add: load_config_def seq_def)











lemma superscript_digits_accepted:
  "fst (load_config example_env ''accounts.json''
          (example_world\<lparr>config_file := Holds (registry (PStr (replicate 12 (CHR 0xB2))))\<rparr>)) =
     Inr (registry (PStr (replicate 12 (CHR 0xB2))))"
  by code_simp

lemma save_keeps_log:
  "access_log (snd (save_credentials_to_profile env account_name credentials profile_name w)) = access_log w"
  by (auto simp: save_credentials_to_profile_def Let_def print_line_def print_lines_def
           split: option.splits prod.splits sum.splits)

lemma log_access_log:
  "access_log (log_access env a sn ok err w) =
     append_file (log_error env) (log_entry (now_log env) a sn ok err @ ''\<newline>'') (access_log w)"
  by (simp add: log_access_def Let_def print_line_def split: option.splits)

lemma log_access_credentials_file:
  "credentials_file (log_access env a sn ok err w) = credentials_file w"
  by (simp add: log_access_def Let_def print_line_def split: option.splits)

lemma log_access_console:
  "set (console w) \<subseteq> set (console (log_access env a sn ok err w))"
  by (auto simp: log_access_def Let_def print_line_def split: option.splits)

lemma print_fields:
  "access_log (print_line p w) = access_log w" "credentials_file (print_line p w) = credentials_file w"
  "access_log (print_lines ps w) = access_log w" "credentials_file (print_lines ps w) = credentials_file w"
  "console (print_line p w) = console w @ [p]" "console (print_lines ps w) = console w @ ps"
  by (simp_all add: print_line_def print_lines_def)

lemma assume_role_reaches_broker:
  assumes cfg: "py_getitem config ''accounts'' = Inr (PList accounts)"
    and found: "find_account account_name accounts = Inr (Some (PDict kvs))"
    and role: "map_of kvs ''role_arn'' = Some role_arn"
  shows "assume_role env config account_name session_name w =
         call_broker env (PDict kvs) account_name (session_name_or_default env session_name) w"
proof -
  have ne: "kvs \<noteq> []" using role by auto
  show ?thesis using cfg found role ne
    by (simp add: assume_role_def seq_def and_then_def py_iter_def py_truthy_def py_in_def)
qed

lemma call_broker_granted:
  assumes "map_of kvs ''role_arn'' = Some role_arn" "assume_role_result env = Granted c"
  shows "call_broker env (PDict kvs) account_name sn w =
        (Inr (Some c),
         log_access env account_name sn True None
           (print_lines [[Tick, S '' Successfully assumed role!''],
                         [S ''Session expires at: '', S (Expiration c)]]
              (print_line [S ''\<newline>Assuming role in '', S account_name, S '' account...''] w)))"
  using assms by (simp add: call_broker_def py_getitem_def Let_def)

lemma call_broker_refused:
  assumes "map_of kvs ''role_arn'' = Some role_arn" "assume_role_result env = Refused code msg"
  shows "fst (call_broker env (PDict kvs) account_name sn w) = Inr None
       \<and> credentials_file (snd (call_broker env (PDict kvs) account_name sn w)) = credentials_file w
       \<and> access_log (snd (call_broker env (PDict kvs) account_name sn w)) =
           append_file (log_error env)
             (log_entry (now_log env) account_name sn False (Some msg) @ ''\<newline>'') (access_log w)
       \<and> [Cross, S '' Error assuming role: '', S code]
           \<in> set (console (snd (call_broker env (PDict kvs) account_name sn w)))"
proof -
  let ?w = "print_lines
                     ([[Cross, S '' Error assuming role: '', S code],
                       [S ''Details: '', S msg]]
                      @ (if code = ''AccessDenied''
                         then [[S ''\<newline>Possible causes:''],
                               [S ''  - Trust relationship not configured correctly''],
                               [S (''  - Role doesn'' @ quote @ ''t exist in target account'')],
                               [S ''  - Your user lacks sts:AssumeRole permission'']]
                         else [])) (print_line [S ''\<newline>Assuming role in '', S account_name, S '' account...''] w)"
  have cb: "call_broker env (PDict kvs) account_name sn w =
            (Inr None, log_access env account_name sn False (Some msg) ?w)"
    using assms by (simp add: call_broker_def py_getitem_def Let_def)
  have "[Cross, S '' Error assuming role: '', S code] \<in> set (console ?w)"
    by (simp add: print_fields)
  then have c: "[Cross, S '' Error assuming role: '', S code]
        \<in> set (console (log_access env account_name sn False (Some msg) ?w))"
    using log_access_console by blast
  show ?thesis unfolding cb using c
    by (simp add: log_access_log log_access_credentials_file print_fields)
qed

lemma call_broker_failed:
  assumes "map_of kvs ''role_arn'' = Some role_arn" "assume_role_result env = Failed m"
  shows "fst (call_broker env (PDict kvs) account_name sn w) = Inr None
       \<and> credentials_file (snd (call_broker env (PDict kvs) account_name sn w)) = credentials_file w
       \<and> access_log (snd (call_broker env (PDict kvs) account_name sn w)) =
           append_file (log_error env)
             (log_entry (now_log env) account_name sn False (Some m) @ ''\<newline>'') (access_log w)
       \<and> [Cross, S '' Unexpected error: '', S m]
           \<in> set (console (snd (call_broker env (PDict kvs) account_name sn w)))"
proof -
  let ?w = "print_line [Cross, S '' Unexpected error: '', S m]
              (print_line [S ''\<newline>Assuming role in '', S account_name, S '' account...''] w)"
  have cb: "call_broker env (PDict kvs) account_name sn w =
            (Inr None, log_access env account_name sn False (Some m) ?w)"
    using assms by (simp add: call_broker_def py_getitem_def Let_def)
  have "[Cross, S '' Unexpected error: '', S m] \<in> set (console ?w)"
    by (simp add: print_fields)
  then have c: "[Cross, S '' Unexpected error: '', S m]
        \<in> set (console (log_access env account_name sn False (Some m) ?w))"
    using log_access_console by blast
  show ?thesis unfolding cb using c
    by (simp add: log_access_log log_access_credentials_file print_fields)
qed

lemma run_command_assume:
  assumes "argv env = [prog, ''assume'', account_name]"
  shows "run_command env config w =
         seq (assume_role env config account_name None w) (\<lambda>credentials w.
               case credentials of
                 None \<Rightarrow> (Inr (), w)
               | Some c \<Rightarrow> save_credentials_to_profile env account_name c None w)"
  using assms by (simp add: run_command_def Let_def)

lemmas program_eval = example_env_def example_world_def example_credentials_def default_config_def
  main_def init_def load_config_def seq_def read_config_def validate_config_def and_then_def
  py_in_def py_getitem_def py_isdigit_def py_len_def py_iter_def py_truthy_def check_account_def
  isdigit_char_def run_command_def assume_role_def call_broker_def session_name_or_default_def
  log_access_def log_entry_def append_file_def print_line_def print_lines_def quote_def
  save_credentials_to_profile_def default_profile_def write_file_def failure_cause_def Let_def


section \<open>Claims about the credentials file\<close>




text \<open>
  Claim C2. Saving the same profile twice in a row: for a file whose last line has no
  line feed the first save writes \<open>k=1\<close>, a line feed and the new block directly, with no
  blank line between; the second save reads that text and inserts the blank line, so its
  result differs from the first. (For a content that is empty or ends in a line feed the
  second save changes nothing: lemma \<open>resave_same_when_newline_terminated\<close>.)
\<close>

theorem second_save_differs:
  "reconcile_text ''t'' \<lparr>AccessKeyId = ''AK'', SecretAccessKey = ''SK'', SessionToken = ''TK'', Expiration = ''E''\<rparr>
     ''[a]\<newline>k=1'' =
     ''[a]\<newline>k=1\<newline>[t]\<newline>aws_access_key_id = AK\<newline>aws_secret_access_key = SK\<newline>aws_session_token = TK\<newline>''
   \<and> reconcile_text ''t'' \<lparr>AccessKeyId = ''AK'', SecretAccessKey = ''SK'', SessionToken = ''TK'', Expiration = ''E''\<rparr>
     (reconcile_text ''t'' \<lparr>AccessKeyId = ''AK'', SecretAccessKey = ''SK'', SessionToken = ''TK'', Expiration = ''E''\<rparr>
        ''[a]\<newline>k=1'') =
     ''[a]\<newline>k=1\<newline>\<newline>[t]\<newline>aws_access_key_id = AK\<newline>aws_secret_access_key = SK\<newline>aws_session_token = TK\<newline>''
   \<and> reconcile_text ''t'' \<lparr>AccessKeyId = ''AK'', SecretAccessKey = ''SK'', SessionToken = ''TK'', Expiration = ''E''\<rparr>
     (reconcile_text ''t'' \<lparr>AccessKeyId = ''AK'', SecretAccessKey = ''SK'', SessionToken = ''TK'', Expiration = ''E''\<rparr>
        ''[a]\<newline>k=1'') \<noteq>
     reconcile_text ''t'' \<lparr>AccessKeyId = ''AK'', SecretAccessKey = ''SK'', SessionToken = ''TK'', Expiration = ''E''\<rparr>
        ''[a]\<newline>k=1''"
  by code_simp









text \<open>
  Claim C9. Once the loop has met a line whose stripped text is \<open>[profile_name]\<close>, it drops
  every following line until one that has \<open>[\<close> as its very first character. A later section
  header that carries leading white space (first character \<open>w\<close>, a space character) does not
  end the skipping: the header, and every line of its section up to the next line starting
  with \<open>[\<close>, is deleted together with the target block. The written file is the one
  that the same lines without the target's body and without that section give.
\<close>

theorem skip_ends_only_at_bracket_in_column_0:
  assumes rd: "readlines content = before @ [h] @ target_body @ [w # other_header] @ section_body @ rest"
    and h: "strip h = profile_header profile_name"
    and tb: "\<forall>l\<in>set target_body. \<not> startswith l ''[''"
    and w: "isspace w"
    and sb: "\<forall>l\<in>set section_body. \<not> startswith l ''[''"
  shows "reconcile_text profile_name credentials content =
         writelines (fst (reconcile_lines profile_name credentials (before @ [h] @ rest)))"
proof -
  let ?hdr = "profile_header profile_name"
  let ?body = "target_body @ [w # other_header] @ section_body"
  have nw: "\<not> startswith (w # other_header) ''[''"
    using w bracket_not_space by (auto simp: startswith_bracket)
  have body: "\<forall>l\<in>set ?body. \<not> startswith l ''[''" using tb sb nw by auto
  have "scan ?hdr False (before @ h # ?body @ rest) =
        scan ?hdr False (before @ [h]) @ scan ?hdr True (?body @ rest)"
    using h by (rule scan_upto_target)
  also have "scan ?hdr True (?body @ rest) = scan ?hdr True rest"
    using body by (rule scan_skip_drop)
  also have "scan ?hdr False (before @ [h]) @ scan ?hdr True rest = scan ?hdr False (before @ h # rest)"
    using scan_upto_target [OF h, of False before rest] by simp
  finally show ?thesis by (simp add: reconcile_text_def rd reconcile_lines_scan)
qed

theorem skip_ends_only_at_bracket_in_column_0_witness:
  "reconcile_text ''t'' \<lparr>AccessKeyId = ''AK'', SecretAccessKey = ''SK'', SessionToken = ''TK'', Expiration = ''E''\<rparr>
     ''[a]\<newline>k=1\<newline>[t]\<newline>old=1\<newline>  [c]\<newline>k=2\<newline>[d]\<newline>k=3\<newline>'' =
   ''[a]\<newline>k=1\<newline>[d]\<newline>k=3\<newline>\<newline>[t]\<newline>aws_access_key_id = AK\<newline>aws_secret_access_key = SK\<newline>aws_session_token = TK\<newline>''"
  using skip_ends_only_at_bracket_in_column_0 [of
     "''[a]\<newline>k=1\<newline>[t]\<newline>old=1\<newline>  [c]\<newline>k=2\<newline>[d]\<newline>k=3\<newline>''"
     "[''[a]\<newline>'', ''k=1\<newline>'']" "''[t]\<newline>''" "[''old=1\<newline>'']" "CHR '' ''" "'' [c]\<newline>''"
     "[''k=2\<newline>'']" "[''[d]\<newline>'', ''k=3\<newline>'']" "''t''"
     "\<lparr>AccessKeyId = ''AK'', SecretAccessKey = ''SK'', SessionToken = ''TK'', Expiration = ''E''\<rparr>"]
  by (simp add: eval_defs)


section \<open>Claims about failures, the registry and the audit log\<close>

text \<open>
  Claim C3. With the directory in place: a failure while reading the credentials file is
  not caught, the \<open>OSError\<close> with its cause reaches the caller and nothing is changed. If
  the read succeeds, the call returns normally whatever the write does; the file then is
  what \<open>write_file\<close> leaves: the full new text without a failure, the old state when
  opening fails, and the first \<open>k\<close> characters of the new text when the write fails after
  \<open>k\<close> characters. A write failure is only printed, with its cause.
\<close>

theorem write_failure_is_swallowed_and_not_atomic:
  assumes "mkdir_error env = None"
  shows "(credentials_file w = Some content \<and> read_error env = Some cause \<longrightarrow>
            save_credentials_to_profile env account_name credentials profile_name w =
              (Inl (OSError cause), w))
       \<and> (credentials_file w = None \<or> read_error env = None \<longrightarrow>
            fst (save_credentials_to_profile env account_name credentials profile_name w) = Inr ()
            \<and> credentials_file (snd (save_credentials_to_profile env account_name credentials profile_name w)) =
                write_file (write_error env)
                  (writelines (fst (reconcile_lines (default_profile account_name profile_name)
                                      credentials (old_lines w))))
                  (credentials_file w))
       \<and> ((credentials_file w = None \<or> read_error env = None) \<and> write_error env = Some f \<longrightarrow>
            console (snd (save_credentials_to_profile env account_name credentials profile_name w)) =
              console w @ [[Cross, S '' Error writing credentials file: '',
                            StrOf (OSError (failure_cause f))]])"
  using save_read_failure [OF assms] save_after_read [OF assms] save_write_failure_console [OF assms]
  by blast

theorem write_failure_is_swallowed_and_not_atomic_witness:
  "fst (save_credentials_to_profile
          (example_env\<lparr>write_error := Some (OpenFails ''Permission denied'')\<rparr>)
          ''dev'' example_credentials None example_world) = Inr ()
   \<and> credentials_file (snd (save_credentials_to_profile
          (example_env\<lparr>write_error := Some (OpenFails ''Permission denied'')\<rparr>)
          ''dev'' example_credentials None example_world)) = Some ''[a]\<newline>k=1\<newline>''"
  using write_failure_is_swallowed_and_not_atomic [of
      "example_env\<lparr>write_error := Some (OpenFails ''Permission denied'')\<rparr>"
      example_world "''x''" "''c''" "''dev''" example_credentials None "OpenFails ''Permission denied''"]
  by (simp add: example_env_def example_world_def write_file_def)

text \<open>
  A write that fails after twelve characters: the call returns normally, and the file
  holds neither the old content nor the full new content.
\<close>

theorem half_written_file_counterexample:
  "fst (save_credentials_to_profile
          (example_env\<lparr>write_error := Some (WriteFailsAfter 12 ''No space left on device'')\<rparr>)
          ''dev'' example_credentials None example_world) = Inr ()
   \<and> credentials_file example_world = Some ''[a]\<newline>k=1\<newline>''
   \<and> credentials_file (snd (save_credentials_to_profile
          (example_env\<lparr>write_error := Some (WriteFailsAfter 12 ''No space left on device'')\<rparr>)
          ''dev'' example_credentials None example_world)) = Some ''[a]\<newline>k=1\<newline>\<newline>[as''"
  by (simp add: program_eval reconcile_lines_scan eval_defs)




text \<open>
  Claim C8. The command \<open>assume account_name\<close> for an account that is found and has a
  \<open>role_arn\<close>, so that the broker is called. If the broker grants credentials, the command
  is \<open>save_credentials_to_profile\<close> with no profile override, that is for the profile
  \<open>assumed-account_name\<close>, run after the success was printed and logged. If the broker
  refuses or fails otherwise, the command returns normally, the credentials file is
  untouched and the failure is printed. In each case the audit log is what \<open>append_file\<close>
  makes of one entry, \<open>SUCCESS\<close> or \<open>FAILED\<close>: the log followed by that one line when
  the log can be written.
\<close>

theorem broker_outcome_drives_store_and_audit_log:
  assumes argv: "argv env = [prog, ''assume'', account_name]"
    and cfg: "py_getitem config ''accounts'' = Inr (PList accounts)"
    and found: "find_account account_name accounts = Inr (Some (PDict kvs))"
    and role: "map_of kvs ''role_arn'' = Some role_arn"
  shows "(assume_role_result env = Granted c \<longrightarrow>
            run_command env config w =
              save_credentials_to_profile env account_name c None
                (log_access env account_name (''session-'' @ now_session env) True None
                   (print_lines [[Tick, S '' Successfully assumed role!''],
                                 [S ''Session expires at: '', S (Expiration c)]]
                      (print_line [S ''\<newline>Assuming role in '', S account_name,
                                   S '' account...''] w)))
            \<and> default_profile account_name None = ''assumed-'' @ account_name
            \<and> access_log (snd (run_command env config w)) =
                append_file (log_error env)
                  (log_entry (now_log env) account_name (''session-'' @ now_session env) True None
                   @ ''\<newline>'') (access_log w))
       \<and> (assume_role_result env = Refused code msg \<longrightarrow>
            fst (run_command env config w) = Inr ()
            \<and> credentials_file (snd (run_command env config w)) = credentials_file w
            \<and> access_log (snd (run_command env config w)) =
                append_file (log_error env)
                  (log_entry (now_log env) account_name (''session-'' @ now_session env) False
                     (Some msg) @ ''\<newline>'') (access_log w)
            \<and> [Cross, S '' Error assuming role: '', S code]
                \<in> set (console (snd (run_command env config w))))
       \<and> (assume_role_result env = Failed m \<longrightarrow>
            fst (run_command env config w) = Inr ()
            \<and> credentials_file (snd (run_command env config w)) = credentials_file w
            \<and> access_log (snd (run_command env config w)) =
                append_file (log_error env)
                  (log_entry (now_log env) account_name (''session-'' @ now_session env) False
                     (Some m) @ ''\<newline>'') (access_log w)
            \<and> [Cross, S '' Unexpected error: '', S m]
                \<in> set (console (snd (run_command env config w))))
       \<and> append_file None (entry @ ''\<newline>'') (access_log w) = access_log w @ entry @ ''\<newline>''"
proof -
  let ?sn = "''session-'' @ now_session env"
  have sn: "session_name_or_default env None = ?sn" by (simp add: session_name_or_default_def)
  have rc: "run_command env config w =
            seq (call_broker env (PDict kvs) account_name ?sn w) (\<lambda>credentials w.
               case credentials of
                 None \<Rightarrow> (Inr (), w)
               | Some c \<Rightarrow> save_credentials_to_profile env account_name c None w)"
    using run_command_assume [OF argv] assume_role_reaches_broker [OF cfg found role] sn by simp
  have g: "run_command env config w =
              save_credentials_to_profile env account_name c None
                (log_access env account_name ?sn True None
                   (print_lines [[Tick, S '' Successfully assumed role!''],
                                 [S ''Session expires at: '', S (Expiration c)]]
                      (print_line [S ''\<newline>Assuming role in '', S account_name,
                                   S '' account...''] w)))"
    if "assume_role_result env = Granted c"
    unfolding rc call_broker_granted [OF role that] by (simp add: seq_def)
  have gl: "access_log (snd (run_command env config w)) =
                append_file (log_error env)
                  (log_entry (now_log env) account_name ?sn True None @ ''\<newline>'') (access_log w)"
    if "assume_role_result env = Granted c"
    unfolding g [OF that] by (simp add: save_keeps_log log_access_log print_fields)
  have nn: "run_command env config w = (Inr (), snd (call_broker env (PDict kvs) account_name ?sn w))"
    if "fst (call_broker env (PDict kvs) account_name ?sn w) = Inr None"
    unfolding rc using that
    by (cases "call_broker env (PDict kvs) account_name ?sn w") (simp add: seq_def)
  have r: "fst (run_command env config w) = Inr ()
            \<and> credentials_file (snd (run_command env config w)) = credentials_file w
            \<and> access_log (snd (run_command env config w)) =
                append_file (log_error env)
                  (log_entry (now_log env) account_name ?sn False (Some msg) @ ''\<newline>'') (access_log w)
            \<and> [Cross, S '' Error assuming role: '', S code]
                \<in> set (console (snd (run_command env config w)))"
    if "assume_role_result env = Refused code msg"
    using call_broker_refused [OF role that, of account_name ?sn w] nn by simp
  have f: "fst (run_command env config w) = Inr ()
            \<and> credentials_file (snd (run_command env config w)) = credentials_file w
            \<and> access_log (snd (run_command env config w)) =
                append_file (log_error env)
                  (log_entry (now_log env) account_name ?sn False (Some m) @ ''\<newline>'') (access_log w)
            \<and> [Cross, S '' Unexpected error: '', S m]
                \<in> set (console (snd (run_command env config w)))"
    if "assume_role_result env = Failed m"
    using call_broker_failed [OF role that, of account_name ?sn w] nn by simp
  have d: "default_profile account_name None = ''assumed-'' @ account_name"
    by (simp add: default_profile_def)
  have a: "append_file None (entry @ ''\<newline>'') (access_log w) = access_log w @ entry @ ''\<newline>''"
    by (simp add: append_file_def)
  show ?thesis using g gl r f d a by blast
qed

theorem broker_outcome_drives_store_and_audit_log_witness:
  "access_log (snd (run_command
       (example_env\<lparr>assume_role_result := Refused ''AccessDenied'' ''not authorized''\<rparr>)
       default_config example_world)) =
     ''2024-01-01 00:00:00 - FAILED - Account: '' @ quote @ ''dev'' @ quote
     @ '' - Session: session-20240101-000000 - Error: not authorized\<newline>''
   \<and> credentials_file (snd (run_command
       (example_env\<lparr>assume_role_result := Refused ''AccessDenied'' ''not authorized''\<rparr>)
       default_config example_world)) = Some ''[a]\<newline>k=1\<newline>''"
  using broker_outcome_drives_store_and_audit_log [of
      "example_env\<lparr>assume_role_result := Refused ''AccessDenied'' ''not authorized''\<rparr>"
      "''account_manager.py''" "''dev''" default_config
      "[PDict [(''name'', PStr ''main''), (''account_id'', PStr ''949396396071''),
               (''description'', PStr ''Main AWS Account'')],
        PDict [(''name'', PStr ''dev''), (''account_id'', PStr ''093218045525''),
               (''role_arn'', PStr ''arn:aws:iam::093218045525:role/CrossAccountAdminRole''),
               (''description'', PStr ''Development Account'')]]"
      "[(''name'', PStr ''dev''), (''account_id'', PStr ''093218045525''),
               (''role_arn'', PStr ''arn:aws:iam::093218045525:role/CrossAccountAdminRole''),
               (''description'', PStr ''Development Account'')]"
      "PStr ''arn:aws:iam::093218045525:role/CrossAccountAdminRole''"
      example_credentials example_world "''AccessDenied''" "''not authorized''" "''m''" "''e''"]
  by (simp add: example_env_def example_world_def default_config_def py_getitem_def
        log_entry_def append_file_def quote_def)

text \<open>
  When the audit log cannot be opened, a refused attempt leaves no line in it.
\<close>

theorem unwritable_audit_log_counterexample:
  "access_log (snd (main
      (example_env\<lparr>assume_role_result := Refused ''AccessDenied'' ''not authorized'',
                     log_error := Some (OpenFails ''Permission denied'')\<rparr>)
      example_world)) = []
   \<and> access_log example_world = []"
  by (simp add: program_eval)

text \<open>
  Claim C10. When the config file exists, \<open>load_config\<close> changes nothing and either
  returns the configuration held by the file, which then passes \<open>validate_config\<close>, or
  raises a \<open>ConfigError\<close>: whatever \<open>open\<close>, \<open>json.load\<close> or \<open>validate_config\<close> raise
  goes through the two \<open>except\<close> clauses.
\<close>

theorem load_config_raises_only_ConfigError:
  assumes "config_file w \<noteq> Missing"
  shows "snd (load_config env path w) = w
       \<and> (case fst (load_config env path w) of
            Inl e \<Rightarrow> is_config_error e
          | Inr config \<Rightarrow> config_file w = Holds config \<and> validate_config config = Inr ())
       \<and> (config_file w = Raises e \<longrightarrow>
            fst (load_config env path w) = Inl (handle_load_error e))
       \<and> (config_file w = Holds config \<and> validate_config config = Inl e \<longrightarrow>
            fst (load_config env path w) = Inl (handle_load_error e))"
proof -
  have 1: "case read_config w of
            Inl e \<Rightarrow> is_config_error e
          | Inr config \<Rightarrow> config_file w = Holds config \<and> validate_config config = Inr ()"
    using assms
    by (cases "config_file w")
       (auto simp: read_config_def and_then_def handle_load_error_config split: sum.splits)
  have 2: "config_file w = Raises e \<longrightarrow> read_config w = Inl (handle_load_error e)"
    by (simp add: read_config_def)
  have 3: "config_file w = Holds config \<and> validate_config config = Inl e \<longrightarrow>
           read_config w = Inl (handle_load_error e)"
    by (simp add: read_config_def and_then_def)
  show ?thesis using 1 2 3 by (simp add: load_config_existing [OF assms])
qed

theorem load_config_raises_only_ConfigError_witness:
  "fst (load_config example_env ''accounts.json''
          (example_world\<lparr>config_file := Raises (JSONDecodeError ''Expecting value'')\<rparr>)) =
     Inl (ConfigError [S ''Invalid JSON in config file: '', StrOf (JSONDecodeError ''Expecting value'')])"
  using load_config_raises_only_ConfigError [of
      "example_world\<lparr>config_file := Raises (JSONDecodeError ''Expecting value'')\<rparr>"
      example_env "''accounts.json''" "JSONDecodeError ''Expecting value''"]
  by (simp add: example_world_def handle_load_error_def)


end
